theory Spec2Isabelle
  imports Complex_Main
begin

section \<open>The hybrid Newton/bisection solver of solver2.py\<close>

text \<open>
  The solver works on Python floats; the embedding takes them as real numbers, so every
  statement below is about exact arithmetic. An evaluator is one of the two callables
  built by the constructor (\<open>self.f\<close> and \<open>self.df\<close>): it returns a number or
  raises, and a raise is the left injection of the result.
\<close>

datatype pyexn = ValueError string | ZeroDivisionError | OtherError string

type_synonym evaluator = "real \<Rightarrow> pyexn + real"

text \<open>One dictionary appended to \<open>self.history\<close> (lines 92 to 99).\<close>

record iteration_record =
  Iteration :: int
  Method :: string
  Current_Root_Estimate :: real
  Function_Value :: real
  Error_Estimate :: real
  Decision_Logic :: string

text \<open>The attributes of a \<open>HybridSolver\<close> that \<open>solve\<close> reads or writes.\<close>

record solver =
  valid :: bool
  error_msg :: string
  fn :: evaluator
  dfn :: evaluator
  history :: "iteration_record list"

text \<open>The local variables \<open>a\<close>, \<open>b\<close> and \<open>current_x\<close> of \<open>solve\<close>.\<close>

record locals =
  var_a :: real
  var_b :: real
  current_x :: real

text \<open>
  The second component of the returned pair: a data frame built from a list of records, or
  the error text of a failed bracket check.
\<close>

datatype table = DataFrame "iteration_record list" | ErrorText string

definition bracket_error_text :: string where
  "bracket_error_text =
     ''Error: The chosen interval [a, b] does not bracket a root. f(a) and f(b) must have opposite signs.''"

text \<open>
  Lines 54 to 60: the statements of the \<open>try\<close> block up to the Newton candidate. Any of
  the two evaluations may raise; a derivative below the threshold raises \<open>ValueError\<close>.
\<close>

definition newton_candidate :: "evaluator \<Rightarrow> evaluator \<Rightarrow> real \<Rightarrow> pyexn + real" where
  "newton_candidate f df x =
     (case f x of
        Inl e \<Rightarrow> Inl e
      | Inr f_val \<Rightarrow>
          (case df x of
             Inl e \<Rightarrow> Inl e
           | Inr df_val \<Rightarrow>
               if \<bar>df_val\<bar> < 1 / 10 ^ 12 then Inl (ValueError ''Zero Derivative'')
               else Inr (x - f_val / df_val)))"

text \<open>
  Lines 53 to 78: the whole \<open>try\<close>/\<open>except Exception\<close> statement. It yields the new
  \<open>current_x\<close>, \<open>method_used\<close> and \<open>decision_note\<close>.
\<close>

definition newton_step ::
  "evaluator \<Rightarrow> evaluator \<Rightarrow> real \<Rightarrow> real \<Rightarrow> real \<Rightarrow> real \<times> string \<times> string" where
  "newton_step f df a b x =
     (case newton_candidate f df x of
        Inr x_newton \<Rightarrow>
          if a < x_newton \<and> x_newton < b
          then (x_newton, ''Newton-Raphson'', ''Accepted (Step is Safe)'')
          else ((a + b) / 2, ''Bisection'', ''Switched (Newton Overshot Bounds)'')
      | Inl e \<Rightarrow> ((a + b) / 2, ''Bisection'', ''Switched (Newton Singularity)''))"

text \<open>
  Lines 49 to 103: one pass through the loop body for the index \<open>i\<close>. The two
  evaluations of the bracket update stand outside the \<open>try\<close> block, so a raise there
  leaves the body with nothing appended. The boolean of a normal result tells whether the
  body ended in \<open>break\<close>.
\<close>

definition iteration ::
  "solver \<Rightarrow> real \<Rightarrow> locals \<Rightarrow> int \<Rightarrow> pyexn + (solver \<times> locals \<times> bool)" where
  "iteration s tol v i =
     (case newton_step (fn s) (dfn s) (var_a v) (var_b v) (current_x v) of
        (x, method_used, decision_note) \<Rightarrow>
          (case fn s x of
             Inl e \<Rightarrow> Inl e
           | Inr f_new \<Rightarrow>
               (case fn s (var_a v) of
                  Inl e \<Rightarrow> Inl e
                | Inr f_a \<Rightarrow>
                    (let v' = (if f_a * f_new < 0
                               then v\<lparr>var_b := x, current_x := x\<rparr>
                               else v\<lparr>var_a := x, current_x := x\<rparr>);
                         error = \<bar>var_b v' - var_a v'\<bar>;
                         s' = s\<lparr>history := history s @
                                [\<lparr>Iteration = i, Method = method_used,
                                  Current_Root_Estimate = x, Function_Value = f_new,
                                  Error_Estimate = error,
                                  Decision_Logic = decision_note\<rparr>]\<rparr>
                     in Inr (s', v', error < tol \<or> \<bar>f_new\<bar> < 1 / 10 ^ 12)))))"

text \<open>
  The \<open>for\<close> loop over the indices of \<open>range(1, max_iter + 1)\<close>. It ends when the
  indices are used up, at a \<open>break\<close>, or with the exception that left the body. The
  result carries the solver as the loop left it. The natural number counts the passes
  through the body that ran to their end; at a normal exit it is the value of the loop
  variable \<open>i\<close> (0 when no pass was made).
\<close>

fun loop ::
  "solver \<Rightarrow> real \<Rightarrow> locals \<Rightarrow> nat \<Rightarrow> int list \<Rightarrow> (pyexn + (locals \<times> bool \<times> nat)) \<times> solver" where
  "loop s tol v n [] = (Inr (v, False, n), s)"
| "loop s tol v n (i # is) =
     (case iteration s tol v i of
        Inl e \<Rightarrow> (Inl e, s)
      | Inr (s', v', stop) \<Rightarrow>
          if stop then (Inr (v', True, Suc n), s') else loop s' tol v' (Suc n) is)"

text \<open>Lines 45 to 103: what \<open>solve\<close> does once the bracket check has passed.\<close>

definition solve_loop ::
  "solver \<Rightarrow> real \<Rightarrow> real \<Rightarrow> real \<Rightarrow> int \<Rightarrow> (pyexn + (locals \<times> bool \<times> nat)) \<times> solver" where
  "solve_loop s a b tol max_iter =
     loop (s\<lparr>history := []\<rparr>) tol \<lparr>var_a = a, var_b = b, current_x = (a + b) / 2\<rparr> 0
       [1..max_iter]"

text \<open>
  The method \<open>solve\<close>. The result is what the call returns or raises, and the solver
  after the call.
\<close>

definition solve ::
  "solver \<Rightarrow> real \<Rightarrow> real \<Rightarrow> real \<Rightarrow> int \<Rightarrow> (pyexn + (real option \<times> table)) \<times> solver" where
  "solve s a b tol max_iter =
     (if \<not> valid s then (Inr (None, DataFrame []), s)
      else
        (case fn s a of
           Inl e \<Rightarrow> (Inl e, s)
         | Inr fa \<Rightarrow>
             (case fn s b of
                Inl e \<Rightarrow> (Inl e, s)
              | Inr fb \<Rightarrow>
                  if fa * fb \<ge> 0 then (Inr (None, ErrorText bracket_error_text), s)
                  else
                    (case solve_loop s a b tol max_iter of
                       (Inl e, s') \<Rightarrow> (Inl e, s')
                     | (Inr (v, stopped, n), s') \<Rightarrow>
                         (Inr (Some (current_x v), DataFrame (history s')), s')))))"

subsection \<open>Solvers used as concrete inputs\<close>

text \<open>\<open>HybridSolver("x**2 - 2")\<close>, freshly constructed.\<close>

definition sqrt2_solver :: solver where
  "sqrt2_solver =
     \<lparr>valid = True, error_msg = [], fn = (\<lambda>x. Inr (x * x - 2)), dfn = (\<lambda>x. Inr (2 * x)),
      history = []\<rparr>"

text \<open>A solver whose expression did not parse: the constructor left it invalid.\<close>

definition unparsed_solver :: solver where
  "unparsed_solver =
     \<lparr>valid = False, error_msg = ''Invalid Function Syntax: ...'',
      fn = (\<lambda>x. Inl (OtherError ''AttributeError'')),
      dfn = (\<lambda>x. Inl (OtherError ''AttributeError'')), history = []\<rparr>"

text \<open>\<open>HybridSolver("x**2 + 1")\<close>, freshly constructed.\<close>

definition no_root_solver :: solver where
  "no_root_solver =
     \<lparr>valid = True, error_msg = [], fn = (\<lambda>x. Inr (x * x + 1)), dfn = (\<lambda>x. Inr (2 * x)),
      history = []\<rparr>"

text \<open>
  \<open>HybridSolver("x")\<close>, freshly constructed.
\<close>

definition identity_solver :: solver where
  "identity_solver =
     \<lparr>valid = True, error_msg = [], fn = (\<lambda>x. Inr x), dfn = (\<lambda>x. Inr 1), history = []\<rparr>"

text \<open>
  \<open>HybridSolver("x**3 - 2*x + 2")\<close>, freshly constructed.
\<close>

definition cubic_solver :: solver where
  "cubic_solver =
     \<lparr>valid = True, error_msg = [], fn = (\<lambda>x. Inr (x ^ 3 - 2 * x + 2)),
      dfn = (\<lambda>x. Inr (3 * x ^ 2 - 2)), history = []\<rparr>"

text \<open>
  \<open>HybridSolver("1/x")\<close>, freshly constructed: both evaluators divide by zero at 0.
\<close>

definition recip_solver :: solver where
  "recip_solver =
     \<lparr>valid = True, error_msg = [],
      fn = (\<lambda>x. if x = 0 then Inl ZeroDivisionError else Inr (1 / x)),
      dfn = (\<lambda>x. if x = 0 then Inl ZeroDivisionError else Inr (- 1 / x ^ 2)),
      history = []\<rparr>"

text \<open>
  A solver whose function evaluator computes \<open>x * abs(x) - 1\<close> everywhere and whose
  derivative evaluator computes \<open>2 * abs(x)\<close> but raises \<open>ZeroDivisionError\<close> at 0.
\<close>

definition cusp_solver :: solver where
  "cusp_solver =
     \<lparr>valid = True, error_msg = [], fn = (\<lambda>x. Inr (x * \<bar>x\<bar> - 1)),
      dfn = (\<lambda>x. if x = 0 then Inl ZeroDivisionError else Inr (2 * \<bar>x\<bar>)), history = []\<rparr>"

text \<open>
  The solver for \<open>x**2 - 2\<close> after one call \<open>solve(0, 2, 1e-6, 1)\<close>.
\<close>

definition used_solver :: solver where
  "used_solver = snd (solve sqrt2_solver 0 2 (1 / 10 ^ 6) 1)"

text \<open>
  The records of the call \<open>solve(-2, 1, 1, 100)\<close> on \<open>cubic_solver\<close>: two bisection passes.
\<close>

definition cubic_history :: "iteration_record list" where
  "cubic_history =
     [\<lparr>Iteration = 1, Method = ''Bisection'', Current_Root_Estimate = - 1 / 2,
       Function_Value = 23 / 8, Error_Estimate = 3 / 2,
       Decision_Logic = ''Switched (Newton Overshot Bounds)''\<rparr>,
      \<lparr>Iteration = 2, Method = ''Bisection'', Current_Root_Estimate = - 5 / 4,
       Function_Value = 163 / 64, Error_Estimate = 3 / 4,
       Decision_Logic = ''Switched (Newton Overshot Bounds)''\<rparr>]"

subsection \<open>The bracketing property\<close>

text \<open>
  The sign test of lines 39 to 42 read as a property of a pair of endpoints: both values
  exist and their product is negative. The weak form allows a zero product.
\<close>

definition brackets :: "evaluator \<Rightarrow> real \<Rightarrow> real \<Rightarrow> bool" where
  "brackets f a b =
     (case f a of Inl e \<Rightarrow> False
      | Inr fa \<Rightarrow> (case f b of Inl e \<Rightarrow> False | Inr fb \<Rightarrow> fa * fb < 0))"

definition brackets_weakly :: "evaluator \<Rightarrow> real \<Rightarrow> real \<Rightarrow> bool" where
  "brackets_weakly f a b =
     (case f a of Inl e \<Rightarrow> False
      | Inr fa \<Rightarrow> (case f b of Inl e \<Rightarrow> False | Inr fb \<Rightarrow> fa * fb \<le> 0))"

section \<open>One pass of the loop body\<close>

lemma newton_step_cases:
  assumes "newton_step f df a b x = (y, m, d)"
  shows "(a < y \<and> y < b \<and> m = ''Newton-Raphson'' \<and> d = ''Accepted (Step is Safe)'') \<or>
         (y = (a + b) / 2 \<and> m = ''Bisection'' \<and>
          (d = ''Switched (Newton Overshot Bounds)'' \<or> d = ''Switched (Newton Singularity)''))"
  using assms by (auto simp: newton_step_def split: sum.splits if_splits)

lemma iteration_Inr:
  assumes "iteration s tol v i = Inr (s', v', stop)"
  obtains x m d f_new f_a where
    "newton_step (fn s) (dfn s) (var_a v) (var_b v) (current_x v) = (x, m, d)"
    "fn s x = Inr f_new" "fn s (var_a v) = Inr f_a"
    "v' = (if f_a * f_new < 0 then v\<lparr>var_b := x, current_x := x\<rparr>
           else v\<lparr>var_a := x, current_x := x\<rparr>)"
    "s' = s\<lparr>history := history s @
            [\<lparr>Iteration = i, Method = m, Current_Root_Estimate = x, Function_Value = f_new,
              Error_Estimate = \<bar>var_b v' - var_a v'\<bar>, Decision_Logic = d\<rparr>]\<rparr>"
    "stop = (\<bar>var_b v' - var_a v'\<bar> < tol \<or> \<bar>f_new\<bar> < 1 / 10 ^ 12)"
  using assms unfolding iteration_def Let_def
  by (auto split: prod.splits sum.splits)

lemma iteration_Inl:
  assumes "iteration s tol v i = Inl e"
  shows "fn s (fst (newton_step (fn s) (dfn s) (var_a v) (var_b v) (current_x v))) = Inl e \<or>
         fn s (var_a v) = Inl e"
  using assms unfolding iteration_def Let_def
  by (auto split: prod.splits sum.splits)

lemma iteration_frame:
  assumes "iteration s tol v i = Inr (s', v', stop)"
  shows "fn s' = fn s" "dfn s' = dfn s" "valid s' = valid s" "error_msg s' = error_msg s"
  using assms by (auto elim!: iteration_Inr)


lemma sign_transfer:
  fixes fa fb fnew :: real
  assumes "fa * fb < 0" "\<not> fa * fnew < 0"
  shows "fnew * fb \<le> 0" and "fnew \<noteq> 0 \<Longrightarrow> fnew * fb < 0"
  using assms by (auto simp: mult_less_0_iff mult_le_0_iff not_less zero_le_mult_iff)

lemma iteration_brackets:
  assumes br: "brackets (fn s) (var_a v) (var_b v)"
    and it: "iteration s tol v i = Inr (s', v', stop)"
  shows "brackets_weakly (fn s) (var_a v') (var_b v')"
    and "Function_Value (last (history s')) \<noteq> 0 \<Longrightarrow> brackets (fn s) (var_a v') (var_b v')"
    and "\<not> stop \<Longrightarrow> brackets (fn s) (var_a v') (var_b v')"
proof -
  from it obtain x m d f_new f_a where
    ev: "fn s x = Inr f_new" "fn s (var_a v) = Inr f_a"
    and v': "v' = (if f_a * f_new < 0 then v\<lparr>var_b := x, current_x := x\<rparr>
                   else v\<lparr>var_a := x, current_x := x\<rparr>)"
    and s': "s' = s\<lparr>history := history s @
            [\<lparr>Iteration = i, Method = m, Current_Root_Estimate = x, Function_Value = f_new,
              Error_Estimate = \<bar>var_b v' - var_a v'\<bar>, Decision_Logic = d\<rparr>]\<rparr>"
    and stop: "stop = (\<bar>var_b v' - var_a v'\<bar> < tol \<or> \<bar>f_new\<bar> < 1 / 10 ^ 12)"
    by (rule iteration_Inr)
  from br ev obtain f_b where fb: "fn s (var_b v) = Inr f_b" and neg: "f_a * f_b < 0"
    by (auto simp: brackets_def split: sum.splits)
  have last: "Function_Value (last (history s')) = f_new" using s' by simp
  show "brackets_weakly (fn s) (var_a v') (var_b v')"
  proof (cases "f_a * f_new < 0")
    case True
    with v' ev show ?thesis by (simp add: brackets_weakly_def)
  next
    case False
    with v' ev fb sign_transfer(1) [OF neg False] show ?thesis
      by (simp add: brackets_weakly_def)
  qed
  have strict: "brackets (fn s) (var_a v') (var_b v')" if nz: "f_new \<noteq> 0"
  proof (cases "f_a * f_new < 0")
    case True
    with v' ev show ?thesis by (simp add: brackets_def)
  next
    case False
    with v' ev fb sign_transfer(2) [OF neg False nz] show ?thesis
      by (simp add: brackets_def)
  qed
  show "brackets (fn s) (var_a v') (var_b v')" if "Function_Value (last (history s')) \<noteq> 0"
    using that last strict by simp
  show "brackets (fn s) (var_a v') (var_b v')" if "\<not> stop"
  proof -
    from that stop have "\<not> \<bar>f_new\<bar> < 1 / 10 ^ 12" by simp
    then have "f_new \<noteq> 0" by auto
    then show ?thesis by (rule strict)
  qed
qed

lemma iteration_zero:
  assumes br: "brackets (fn s) (var_a v) (var_b v)"
    and it: "iteration s tol v i = Inr (s', v', stop)"
    and zero: "Function_Value (last (history s')) = 0"
  shows "var_a v' = current_x v' \<and> var_b v' = var_b v \<and> fn s (var_a v') = Inr 0 \<and> stop"
proof -
  from it obtain x m d f_new f_a where
    ev: "fn s x = Inr f_new" "fn s (var_a v) = Inr f_a"
    and v': "v' = (if f_a * f_new < 0 then v\<lparr>var_b := x, current_x := x\<rparr>
                   else v\<lparr>var_a := x, current_x := x\<rparr>)"
    and s': "s' = s\<lparr>history := history s @
            [\<lparr>Iteration = i, Method = m, Current_Root_Estimate = x, Function_Value = f_new,
              Error_Estimate = \<bar>var_b v' - var_a v'\<bar>, Decision_Logic = d\<rparr>]\<rparr>"
    and stop: "stop = (\<bar>var_b v' - var_a v'\<bar> < tol \<or> \<bar>f_new\<bar> < 1 / 10 ^ 12)"
    by (rule iteration_Inr)
  from s' zero have "f_new = 0" by simp
  with ev v' stop show ?thesis by simp
qed


lemma iteration_evaluated:
  assumes it: "iteration s tol v i = Inr (s', v', stop)"
  shows "\<exists>y. fn s' (current_x v') = Inr y"
  using it by (auto elim!: iteration_Inr)

section \<open>The loop\<close>

lemma loop_append:
  "loop s tol v n (xs @ ys) =
     (case loop s tol v n xs of
        (Inl e, s') \<Rightarrow> (Inl e, s')
      | (Inr (v', stopped, n'), s') \<Rightarrow>
          if stopped then (Inr (v', True, n'), s') else loop s' tol v' n' ys)"
  by (induction xs arbitrary: s v n) (auto split: sum.splits prod.splits)

text \<open>
  A rule for loop invariants: what holds at loop entry and is kept by every pass that does
  not break holds at every exit without break; a pass that breaks gives the exit property.
\<close>

lemma loop_invariant:
  assumes run: "loop s tol v n xs = (Inr (v', stopped, n'), s')"
    and init: "P s v"
    and keep: "\<And>s v i s1 v1. P s v \<Longrightarrow> iteration s tol v i = Inr (s1, v1, False) \<Longrightarrow> P s1 v1"
    and brk: "\<And>s v i s1 v1. P s v \<Longrightarrow> iteration s tol v i = Inr (s1, v1, True) \<Longrightarrow> Q s1 v1"
    and weak: "\<And>s v. P s v \<Longrightarrow> Q s v"
  shows "Q s' v' \<and> (\<not> stopped \<longrightarrow> P s' v')"
  using run init
proof (induction xs arbitrary: s v n)
  case Nil
  then show ?case using weak by auto
next
  case (Cons i xs)
  show ?case
  proof (cases "iteration s tol v i")
    case (Inl e)
    with Cons.prems show ?thesis by simp
  next
    case (Inr r)
    obtain s1 v1 stop where r: "r = (s1, v1, stop)" by (cases r)
    show ?thesis
    proof (cases stop)
      case True
      with Cons.prems Inr r have "s' = s1" "v' = v1" "stopped" by simp_all
      with brk [OF Cons.prems(2)] Inr r True show ?thesis by simp
    next
      case False
      with Cons.prems Inr r
      have "loop s1 tol v1 (Suc n) xs = (Inr (v', stopped, n'), s')" by simp
      moreover have "P s1 v1" using keep [OF Cons.prems(2)] Inr r False by simp
      ultimately show ?thesis by (rule Cons.IH)
    qed
  qed
qed


lemma loop_brackets:
  assumes run: "loop s tol v n xs = (Inr (v', False, n'), s')"
    and br: "brackets (fn s) (var_a v) (var_b v)"
  shows "brackets (fn s) (var_a v') (var_b v') \<and> fn s' = fn s"
proof -
  let ?P = "\<lambda>(t::solver) (w::locals). fn t = fn s \<and> brackets (fn s) (var_a w) (var_b w)"
  have "True \<and> (\<not> False \<longrightarrow> ?P s' v')"
  proof (rule loop_invariant [where P = ?P and Q = "\<lambda>t w. True", OF run])
    show "?P s v" using br by simp
  next
    fix t w i t1 w1
    assume P: "?P t w" and it: "iteration t tol w i = Inr (t1, w1, False)"
    from iteration_brackets(3) [OF _ it] P have "brackets (fn t) (var_a w1) (var_b w1)" by simp
    with P iteration_frame(1) [OF it] show "?P t1 w1" by simp
  qed simp_all
  then show ?thesis by simp
qed

text \<open>
  At every loop entry \<open>current_x\<close> is the midpoint of the bracket (before the first pass)
  or a point at which \<open>f\<close> has already been evaluated (after a pass).
\<close>

lemma loop_evaluated:
  assumes run: "loop s tol v n xs = (Inr (v', False, n'), s')"
    and init: "current_x v = (var_a v + var_b v) / 2 \<or> (\<exists>y. fn s (current_x v) = Inr y)"
  shows "(current_x v' = (var_a v' + var_b v') / 2 \<or> (\<exists>y. fn s (current_x v') = Inr y)) \<and>
         fn s' = fn s \<and> dfn s' = dfn s"
proof -
  let ?P = "\<lambda>(t::solver) (w::locals). fn t = fn s \<and> dfn t = dfn s \<and>
     (current_x w = (var_a w + var_b w) / 2 \<or> (\<exists>y. fn s (current_x w) = Inr y))"
  have "True \<and> (\<not> False \<longrightarrow> ?P s' v')"
  proof (rule loop_invariant [where P = ?P and Q = "\<lambda>t w. True", OF run])
    show "?P s v" using init by simp
  next
    fix t w i t1 w1
    assume P: "?P t w" and it: "iteration t tol w i = Inr (t1, w1, False)"
    from iteration_evaluated [OF it] iteration_frame(1,2) [OF it] P show "?P t1 w1" by simp
  qed simp_all
  then show ?thesis by simp
qed


lemma solve_past_validation:
  assumes "valid s" "fn s a = Inr fa" "fn s b = Inr fb" "fa * fb < 0"
  shows "solve s a b tol max_iter =
     (case solve_loop s a b tol max_iter of
        (Inl e, s') \<Rightarrow> (Inl e, s')
      | (Inr (v, stopped, n), s') \<Rightarrow> (Inr (Some (current_x v), DataFrame (history s')), s'))"
  using assms by (simp add: solve_def not_le [symmetric])

text \<open>
  A run capped at \<open>k\<close> that ends without break is the state in which any longer run
  enters pass \<open>k + 1\<close>.
\<close>

lemma solve_loop_next:
  assumes "0 \<le> k" and "k < m" and "solve_loop s a b tol k = (Inr (v, False, n), s1)"
  shows "solve_loop s a b tol m =
     (case iteration s1 tol v (k + 1) of
        Inl e \<Rightarrow> (Inl e, s1)
      | Inr (s2, v2, stop) \<Rightarrow>
          if stop then (Inr (v2, True, Suc n), s2) else loop s2 tol v2 (Suc n) [k + 2..m])"
proof -
  have "[1..m] = [1..k] @ [k + 1..m]"
  proof (cases "k = 0")
    case True
    then show ?thesis by simp
  next
    case False
    with assms(1,2) have "1 \<le> k" "k \<le> m" by simp_all
    then show ?thesis by (rule upto_split2)
  qed
  moreover have "[k + 1..m] = (k + 1) # [k + 2..m]"
    using assms(2) by (simp add: upto_rec1 add.commute)
  ultimately have "[1..m] = [1..k] @ (k + 1) # [k + 2..m]" by simp
  with assms(3) show ?thesis
    by (simp add: solve_loop_def loop_append split: sum.splits prod.splits)
qed


section \<open>Concrete runs\<close>

text \<open>
  Every number in the runs on \<open>cubic_solver\<close>, \<open>identity_solver\<close>, \<open>recip_solver\<close>
  and \<open>cusp_solver\<close> below is a dyadic rational of small size, except the rejected Newton
  candidate \<open>9/5\<close>, which is only compared with the bracket.
\<close>

lemma sqrt2_validation:
  "valid sqrt2_solver" "fn sqrt2_solver 0 = Inr (- 2)" "fn sqrt2_solver 2 = Inr 2"
  "(- 2 :: real) * 2 < 0"
  by (simp_all add: sqrt2_solver_def)

lemma sqrt2_first_pass:
  "solve_loop sqrt2_solver 0 2 (1 / 10 ^ 6) 1 =
     (Inr (\<lparr>var_a = 0, var_b = 3 / 2, current_x = 3 / 2\<rparr>, False, 1),
      sqrt2_solver\<lparr>history :=
        [\<lparr>Iteration = 1, Method = ''Newton-Raphson'', Current_Root_Estimate = 3 / 2,
          Function_Value = 1 / 4, Error_Estimate = 3 / 2,
          Decision_Logic = ''Accepted (Step is Safe)''\<rparr>]\<rparr>)"
  by (simp add: solve_loop_def iteration_def newton_step_def newton_candidate_def
      sqrt2_solver_def Let_def)

lemma used_solver_eq:
  "used_solver = sqrt2_solver\<lparr>history :=
        [\<lparr>Iteration = 1, Method = ''Newton-Raphson'', Current_Root_Estimate = 3 / 2,
          Function_Value = 1 / 4, Error_Estimate = 3 / 2,
          Decision_Logic = ''Accepted (Step is Safe)''\<rparr>]\<rparr>"
  unfolding used_solver_def
  using solve_past_validation [OF sqrt2_validation, of "1 / 10 ^ 6" 1] sqrt2_first_pass
  by simp

lemma cubic_validation:
  "valid cubic_solver" "fn cubic_solver (- 2) = Inr (- 2)" "fn cubic_solver 1 = Inr 1"
  "(- 2 :: real) * 1 < 0"
  by (simp_all add: cubic_solver_def power3_eq_cube)


lemma cubic_first_pass:
  "solve_loop cubic_solver (- 2) 1 (1 / 10 ^ 6) 1 =
     (Inr (\<lparr>var_a = - 2, var_b = - 1 / 2, current_x = - 1 / 2\<rparr>, False, 1),
      cubic_solver\<lparr>history := [hd cubic_history]\<rparr>)"
  by (simp add: solve_loop_def iteration_def newton_step_def newton_candidate_def
      cubic_solver_def cubic_history_def Let_def power3_eq_cube power2_eq_square)

lemma cubic_second_pass:
  "iteration (cubic_solver\<lparr>history := [hd cubic_history]\<rparr>) (1 / 10 ^ 6)
      \<lparr>var_a = - 2, var_b = - 1 / 2, current_x = - 1 / 2\<rparr> (1 + 1) =
     Inr (cubic_solver\<lparr>history := cubic_history\<rparr>,
          \<lparr>var_a = - 2, var_b = - 5 / 4, current_x = - 5 / 4\<rparr>, False)"
  by (simp add: iteration_def newton_step_def newton_candidate_def
      cubic_solver_def cubic_history_def Let_def power3_eq_cube power2_eq_square)


lemma identity_no_pass:
  "solve_loop identity_solver (- 1) 1 (1 / 10 ^ 6) 0 =
     (Inr (\<lparr>var_a = - 1, var_b = 1, current_x = 0\<rparr>, False, 0), identity_solver)"
  by (simp add: solve_loop_def identity_solver_def)

lemma identity_first_pass:
  "iteration identity_solver (1 / 10 ^ 6) \<lparr>var_a = - 1, var_b = 1, current_x = 0\<rparr> (0 + 1) =
     Inr (identity_solver\<lparr>history :=
            [\<lparr>Iteration = 1, Method = ''Newton-Raphson'', Current_Root_Estimate = 0,
              Function_Value = 0, Error_Estimate = 1,
              Decision_Logic = ''Accepted (Step is Safe)''\<rparr>]\<rparr>,
          \<lparr>var_a = 0, var_b = 1, current_x = 0\<rparr>, True)"
  by (simp add: iteration_def newton_step_def newton_candidate_def identity_solver_def Let_def)

lemma recip_no_pass:
  "solve_loop recip_solver (- 1) 1 (1 / 10 ^ 6) 0 =
     (Inr (\<lparr>var_a = - 1, var_b = 1, current_x = 0\<rparr>, False, 0), recip_solver)"
  by (simp add: solve_loop_def recip_solver_def)

lemma cusp_no_pass:
  "solve_loop cusp_solver (- 2) 2 (1 / 10 ^ 6) 0 =
     (Inr (\<lparr>var_a = - 2, var_b = 2, current_x = 0\<rparr>, False, 0), cusp_solver)"
  by (simp add: solve_loop_def cusp_solver_def)

section \<open>Results\<close>

text \<open>
  C1 (amended). Numbers are exact here: every value of \<open>f\<close> is a finite number and a
  product of two values has the sign the exact product has. In a run past the bracket check,
  take any pass \<open>k + 1\<close> that is entered (the first \<open>k\<close> passes ended without break) and
  completes. Before its bracket update \<open>f(a) * f(b) < 0\<close> holds. After the update
  \<open>f(a) * f(b) \<le> 0\<close> holds, and the strict inequality holds whenever the new function
  value is not zero, in particular whenever the loop goes on. Which method produced the
  estimate plays no role. When the new function value is zero, the update moves \<open>a\<close> onto
  \<open>current_x\<close> and leaves \<open>b\<close>, so \<open>f(a) = 0\<close> and the product is zero, and the pass ends
  in \<open>break\<close>.
\<close>

theorem bracket_invariant:
  assumes "fn s a = Inr fa" and "fn s b = Inr fb" and "fa * fb < 0"
    and "solve_loop s a b tol k = (Inr (v, False, n), s1)"
    and "iteration s1 tol v (k + 1) = Inr (s2, v2, stop)"
  shows "brackets (fn s) (var_a v) (var_b v) \<and>
         brackets_weakly (fn s) (var_a v2) (var_b v2) \<and>
         (Function_Value (last (history s2)) \<noteq> 0 \<longrightarrow> brackets (fn s) (var_a v2) (var_b v2)) \<and>
         (\<not> stop \<longrightarrow> brackets (fn s) (var_a v2) (var_b v2)) \<and>
         (Function_Value (last (history s2)) = 0 \<longrightarrow>
            var_a v2 = current_x v2 \<and> var_b v2 = var_b v \<and> fn s (var_a v2) = Inr 0 \<and> stop)"
proof -
  let ?s0 = "s\<lparr>history := []\<rparr>"
  let ?v0 = "\<lparr>var_a = a, var_b = b, current_x = (a + b) / 2\<rparr>"
  have run: "loop ?s0 tol ?v0 0 [1..k] = (Inr (v, False, n), s1)"
    using assms(4) by (simp add: solve_loop_def)
  have init: "brackets (fn ?s0) (var_a ?v0) (var_b ?v0)"
    using assms(1-3) by (simp add: brackets_def)
  from loop_brackets [OF run init]
  have pre: "brackets (fn s) (var_a v) (var_b v)" and fn1: "fn s1 = fn s" by simp_all
  from pre fn1 have pre1: "brackets (fn s1) (var_a v) (var_b v)" by simp
  from iteration_brackets [OF pre1 assms(5)] iteration_zero [OF pre1 assms(5)] fn1 pre
  show ?thesis by auto
qed

theorem bracket_invariant_witness:
  "fn cubic_solver (- 2) = Inr (- 2) \<and> fn cubic_solver 1 = Inr 1 \<and> (- 2 :: real) * 1 < 0 \<and>
   brackets (fn cubic_solver) (- 2) (- 1 / 2) \<and>
   brackets_weakly (fn cubic_solver) (- 2) (- 5 / 4) \<and>
   brackets (fn cubic_solver) (- 2) (- 5 / 4) \<and>
   fn identity_solver (- 1) = Inr (- 1) \<and> fn identity_solver 1 = Inr 1 \<and>
   (- 1 :: real) * 1 < 0 \<and>
   brackets (fn identity_solver) (- 1) 1 \<and> brackets_weakly (fn identity_solver) 0 1 \<and>
   fn identity_solver 0 = Inr 0"
proof -
  have c: "Function_Value (last cubic_history) \<noteq> 0" by (simp add: cubic_history_def)
  have i1: "fn identity_solver (- 1) = Inr (- 1)" and i2: "fn identity_solver 1 = Inr 1"
    and i3: "(- 1 :: real) * 1 < 0"
    by (simp_all add: identity_solver_def)
  from bracket_invariant [OF cubic_validation(2-4) cubic_first_pass cubic_second_pass] c
    bracket_invariant [OF i1 i2 i3 identity_no_pass identity_first_pass]
    cubic_validation i1 i2
  show ?thesis by simp
qed

text \<open>
  C1 as stated fails: for \<open>f(x) = x\<close> on \<open>[-1, 1]\<close> the first estimate is the root
  itself, the update moves \<open>a\<close> onto it, and the product of the endpoint values is 0.
\<close>

theorem bracket_invariant_counterexample:
  "fn identity_solver (- 1) = Inr (- 1) \<and> fn identity_solver 1 = Inr 1 \<and> (- 1 :: real) * 1 < 0 \<and>
   solve_loop identity_solver (- 1) 1 (1 / 10 ^ 6) 100 =
     (Inr (\<lparr>var_a = 0, var_b = 1, current_x = 0\<rparr>, True, 1),
      identity_solver\<lparr>history :=
        [\<lparr>Iteration = 1, Method = ''Newton-Raphson'', Current_Root_Estimate = 0,
          Function_Value = 0, Error_Estimate = 1,
          Decision_Logic = ''Accepted (Step is Safe)''\<rparr>]\<rparr>) \<and>
   fn identity_solver 0 = Inr 0 \<and> \<not> brackets (fn identity_solver) 0 1"
  by (simp add: solve_loop_def iteration_def newton_step_def newton_candidate_def
      identity_solver_def brackets_def upto_rec1)

text \<open>
  C2 (amended). Take the state in which a run enters pass \<open>k + 1\<close>, and let \<open>f\<close> or
  \<open>f'\<close> raise at \<open>current_x\<close> inside the Newton attempt. The exception is caught: the step
  is the bisection midpoint with the decision \<open>Switched (Newton Singularity)\<close>. The bracket
  update then evaluates \<open>f\<close> at that midpoint and at \<open>a\<close> outside the \<open>try\<close> block: when
  both evaluate, the pass completes and records the bisection step; when one of them raises,
  that exception leaves the pass, the loop and \<open>solve\<close>. Where it is \<open>f\<close> that raised at
  \<open>current_x\<close>, \<open>current_x\<close> is itself the midpoint, so the same exception is raised again
  by the bracket update and reaches the caller; only a raise of \<open>f'\<close> is healed.
\<close>

theorem newton_failure_caught:
  assumes "0 \<le> k" and "solve_loop s a b tol k = (Inr (v, False, n), s1)"
    and "fn s (current_x v) = Inl e \<or> dfn s (current_x v) = Inl e"
  shows "newton_step (fn s) (dfn s) (var_a v) (var_b v) (current_x v)
           = ((var_a v + var_b v) / 2, ''Bisection'', ''Switched (Newton Singularity)'') \<and>
         (\<forall>f_new f_a. fn s ((var_a v + var_b v) / 2) = Inr f_new \<longrightarrow> fn s (var_a v) = Inr f_a \<longrightarrow>
            (\<exists>s2 v2 stop. iteration s1 tol v (k + 1) = Inr (s2, v2, stop) \<and>
               current_x v2 = (var_a v + var_b v) / 2 \<and>
               history s2 = history s1 @ [last (history s2)] \<and>
               Iteration (last (history s2)) = k + 1 \<and>
               Method (last (history s2)) = ''Bisection'' \<and>
               Decision_Logic (last (history s2)) = ''Switched (Newton Singularity)'')) \<and>
         (\<forall>e'. fn s ((var_a v + var_b v) / 2) = Inl e' \<longrightarrow> iteration s1 tol v (k + 1) = Inl e') \<and>
         (\<forall>f_new e'. fn s ((var_a v + var_b v) / 2) = Inr f_new \<longrightarrow> fn s (var_a v) = Inl e' \<longrightarrow>
            iteration s1 tol v (k + 1) = Inl e') \<and>
         (fn s (current_x v) = Inl e \<longrightarrow>
            current_x v = (var_a v + var_b v) / 2 \<and> iteration s1 tol v (k + 1) = Inl e) \<and>
         (\<forall>e' max_iter. iteration s1 tol v (k + 1) = Inl e' \<longrightarrow> k < max_iter \<longrightarrow>
            solve_loop s a b tol max_iter = (Inl e', s1) \<and>
            (\<forall>fa fb. valid s \<longrightarrow> fn s a = Inr fa \<longrightarrow> fn s b = Inr fb \<longrightarrow> fa * fb < 0 \<longrightarrow>
               solve s a b tol max_iter = (Inl e', s1)))"
proof -
  let ?m = "(var_a v + var_b v) / 2"
  let ?s0 = "s\<lparr>history := []\<rparr>"
  let ?v0 = "\<lparr>var_a = a, var_b = b, current_x = (a + b) / 2\<rparr>"
  have run: "loop ?s0 tol ?v0 0 [1..k] = (Inr (v, False, n), s1)"
    using assms(2) by (simp add: solve_loop_def)
  have "current_x ?v0 = (var_a ?v0 + var_b ?v0) / 2 \<or> (\<exists>y. fn ?s0 (current_x ?v0) = Inr y)"
    by simp
  from loop_evaluated [OF run this]
  have at: "current_x v = ?m \<or> (\<exists>y. fn s (current_x v) = Inr y)"
    and fn1: "fn s1 = fn s" and dfn1: "dfn s1 = dfn s" by simp_all
  have ns: "newton_step (fn s) (dfn s) (var_a v) (var_b v) (current_x v)
           = (?m, ''Bisection'', ''Switched (Newton Singularity)'')"
    using assms(3) by (auto simp: newton_step_def newton_candidate_def split: sum.splits)
  have fin: "\<exists>s2 v2 stop. iteration s1 tol v (k + 1) = Inr (s2, v2, stop) \<and>
               current_x v2 = ?m \<and> history s2 = history s1 @ [last (history s2)] \<and>
               Iteration (last (history s2)) = k + 1 \<and>
               Method (last (history s2)) = ''Bisection'' \<and>
               Decision_Logic (last (history s2)) = ''Switched (Newton Singularity)''"
    if "fn s ?m = Inr f_new" and "fn s (var_a v) = Inr f_a" for f_new f_a
    using that ns fn1 dfn1 by (simp add: iteration_def Let_def)
  have r1: "iteration s1 tol v (k + 1) = Inl e'" if "fn s ?m = Inl e'" for e'
    using that ns fn1 dfn1 by (simp add: iteration_def)
  have r2: "iteration s1 tol v (k + 1) = Inl e'"
    if "fn s ?m = Inr f_new" and "fn s (var_a v) = Inl e'" for f_new e'
    using that ns fn1 dfn1 by (simp add: iteration_def)
  have fr: "current_x v = ?m \<and> iteration s1 tol v (k + 1) = Inl e"
    if f: "fn s (current_x v) = Inl e"
  proof -
    from at f have m: "current_x v = ?m" by auto
    with f have "fn s ?m = Inl e" by simp
    from r1 [OF this] m show ?thesis by simp
  qed
  have out: "solve_loop s a b tol max_iter = (Inl e', s1) \<and>
            (\<forall>fa fb. valid s \<longrightarrow> fn s a = Inr fa \<longrightarrow> fn s b = Inr fb \<longrightarrow> fa * fb < 0 \<longrightarrow>
               solve s a b tol max_iter = (Inl e', s1))"
    if it: "iteration s1 tol v (k + 1) = Inl e'" and lt: "k < max_iter" for e' max_iter
  proof -
    from solve_loop_next [OF assms(1) lt assms(2)] it
    have sl: "solve_loop s a b tol max_iter = (Inl e', s1)" by simp
    moreover have "solve s a b tol max_iter = (Inl e', s1)"
      if "valid s" "fn s a = Inr fa" "fn s b = Inr fb" "fa * fb < 0" for fa fb
      using solve_past_validation [OF that, of tol max_iter] sl by simp
    ultimately show ?thesis by blast
  qed
  from ns fin r1 r2 fr out show ?thesis by blast
qed

theorem newton_failure_caught_witness:
  "solve_loop recip_solver (- 1) 1 (1 / 10 ^ 6) 0 =
     (Inr (\<lparr>var_a = - 1, var_b = 1, current_x = 0\<rparr>, False, 0), recip_solver) \<and>
   fn recip_solver 0 = Inl ZeroDivisionError \<and>
   newton_step (fn recip_solver) (dfn recip_solver) (- 1) 1 0
     = ((- 1 + 1) / 2, ''Bisection'', ''Switched (Newton Singularity)'') \<and>
   iteration recip_solver (1 / 10 ^ 6) \<lparr>var_a = - 1, var_b = 1, current_x = 0\<rparr> (0 + 1)
     = Inl ZeroDivisionError \<and>
   valid recip_solver \<and> fn recip_solver (- 1) = Inr (- 1) \<and> fn recip_solver 1 = Inr 1 \<and>
   solve recip_solver (- 1) 1 (1 / 10 ^ 6) 100 = (Inl ZeroDivisionError, recip_solver) \<and>
   solve_loop cusp_solver (- 2) 2 (1 / 10 ^ 6) 0 =
     (Inr (\<lparr>var_a = - 2, var_b = 2, current_x = 0\<rparr>, False, 0), cusp_solver) \<and>
   dfn cusp_solver 0 = Inl ZeroDivisionError \<and>
   fn cusp_solver ((- 2 + 2) / 2) = Inr (- 1) \<and> fn cusp_solver (- 2) = Inr (- 5) \<and>
   newton_step (fn cusp_solver) (dfn cusp_solver) (- 2) 2 0
     = ((- 2 + 2) / 2, ''Bisection'', ''Switched (Newton Singularity)'') \<and>
   iteration cusp_solver (1 / 10 ^ 6) \<lparr>var_a = - 2, var_b = 2, current_x = 0\<rparr> (0 + 1)
     = Inr (cusp_solver\<lparr>history :=
              [\<lparr>Iteration = 1, Method = ''Bisection'', Current_Root_Estimate = 0,
                Function_Value = - 1, Error_Estimate = 2,
                Decision_Logic = ''Switched (Newton Singularity)''\<rparr>]\<rparr>,
            \<lparr>var_a = 0, var_b = 2, current_x = 0\<rparr>, False)"
proof -
  let ?v = "\<lparr>var_a = - 1, var_b = 1, current_x = 0 :: real\<rparr>"
  let ?w = "\<lparr>var_a = - 2, var_b = 2, current_x = 0 :: real\<rparr>"
  have r0: "fn recip_solver 0 = Inl ZeroDivisionError" by (simp add: recip_solver_def)
  have r1: "fn recip_solver (current_x ?v) = Inl ZeroDivisionError \<or>
            dfn recip_solver (current_x ?v) = Inl ZeroDivisionError"
    by (simp add: recip_solver_def)
  have rv: "valid recip_solver" "fn recip_solver (- 1) = Inr (- 1)" "fn recip_solver 1 = Inr 1"
    "(- 1 :: real) * 1 < 0"
    by (simp_all add: recip_solver_def)
  note R = newton_failure_caught [OF order_refl recip_no_pass r1]
  from R r0 have rn: "newton_step (fn recip_solver) (dfn recip_solver) (- 1) 1 0
     = ((- 1 + 1) / 2, ''Bisection'', ''Switched (Newton Singularity)'')" by simp
  from R r0 have ri: "iteration recip_solver (1 / 10 ^ 6) ?v (0 + 1) = Inl ZeroDivisionError"
    by simp
  from R ri rv have rs: "solve recip_solver (- 1) 1 (1 / 10 ^ 6) 100
      = (Inl ZeroDivisionError, recip_solver)"
    by simp
  have c0: "dfn cusp_solver 0 = Inl ZeroDivisionError" by (simp add: cusp_solver_def)
  have c1: "fn cusp_solver (current_x ?w) = Inl ZeroDivisionError \<or>
            dfn cusp_solver (current_x ?w) = Inl ZeroDivisionError"
    by (simp add: cusp_solver_def)
  have c2: "fn cusp_solver ((- 2 + 2) / 2) = Inr (- 1)" and c3: "fn cusp_solver (- 2) = Inr (- 5)"
    by (simp_all add: cusp_solver_def)
  note C = newton_failure_caught [OF order_refl cusp_no_pass c1]
  from C have cn: "newton_step (fn cusp_solver) (dfn cusp_solver) (- 2) 2 0
     = ((- 2 + 2) / 2, ''Bisection'', ''Switched (Newton Singularity)'')" by simp
  have ci: "iteration cusp_solver (1 / 10 ^ 6) ?w (0 + 1)
     = Inr (cusp_solver\<lparr>history :=
              [\<lparr>Iteration = 1, Method = ''Bisection'', Current_Root_Estimate = 0,
                Function_Value = - 1, Error_Estimate = 2,
                Decision_Logic = ''Switched (Newton Singularity)''\<rparr>]\<rparr>,
            \<lparr>var_a = 0, var_b = 2, current_x = 0\<rparr>, False)"
    by (simp add: iteration_def newton_step_def newton_candidate_def cusp_solver_def Let_def)
  from recip_no_pass r0 rn ri rv(1-3) rs cusp_no_pass c0 c2 c3 cn ci show ?thesis
    by (intro conjI)
qed

text \<open>
  C2 as stated fails: for \<open>f(x) = 1/x\<close> on \<open>[-1, 1]\<close> the bracket check passes, the
  Newton attempt at 0 is caught, and the evaluation of \<open>f\<close> at the midpoint 0 in the bracket
  update raises \<open>ZeroDivisionError\<close> out of \<open>solve\<close>.
\<close>

theorem exception_propagates_counterexample:
  "valid recip_solver \<and> fn recip_solver (- 1) = Inr (- 1) \<and> fn recip_solver 1 = Inr 1 \<and>
   (- 1 :: real) * 1 < 0 \<and>
   solve recip_solver (- 1) 1 (1 / 10 ^ 6) 100 = (Inl ZeroDivisionError, recip_solver)"
  by (simp add: solve_def solve_loop_def iteration_def newton_step_def newton_candidate_def
      recip_solver_def upto_rec1)

text \<open>
  C3. When \<open>f\<close> and \<open>f'\<close> evaluate at \<open>current_x\<close>, the derivative is at least
  \<open>1e-12\<close> in absolute value and the Newton candidate is not strictly inside
  \<open>(a, b)\<close>, the step is the exact midpoint \<open>(a + b) / 2\<close>, and the record of the pass
  has method \<open>Bisection\<close> and decision \<open>Switched (Newton Overshot Bounds)\<close>.
\<close>

theorem overshoot_switch:
  assumes "fn s (current_x v) = Inr f_val" and "dfn s (current_x v) = Inr df_val"
    and "\<bar>df_val\<bar> \<ge> 1 / 10 ^ 12"
    and "\<not> (var_a v < current_x v - f_val / df_val \<and> current_x v - f_val / df_val < var_b v)"
  shows "newton_step (fn s) (dfn s) (var_a v) (var_b v) (current_x v)
           = ((var_a v + var_b v) / 2, ''Bisection'', ''Switched (Newton Overshot Bounds)'') \<and>
         (\<forall>s' v' stop. iteration s tol v i = Inr (s', v', stop) \<longrightarrow>
            current_x v' = (var_a v + var_b v) / 2 \<and>
            history s' = history s @ [last (history s')] \<and>
            Iteration (last (history s')) = i \<and>
            Method (last (history s')) = ''Bisection'' \<and>
            Decision_Logic (last (history s')) = ''Switched (Newton Overshot Bounds)'' \<and>
            Current_Root_Estimate (last (history s')) = (var_a v + var_b v) / 2)"
proof -
  have ns: "newton_step (fn s) (dfn s) (var_a v) (var_b v) (current_x v)
           = ((var_a v + var_b v) / 2, ''Bisection'', ''Switched (Newton Overshot Bounds)'')"
    using assms by (simp add: newton_step_def newton_candidate_def not_less [symmetric])
  then show ?thesis
    by (auto elim!: iteration_Inr)
qed

theorem overshoot_switch_witness:
  "fn cubic_solver (- 1 / 2) = Inr (23 / 8) \<and> dfn cubic_solver (- 1 / 2) = Inr (- 5 / 4) \<and>
   \<bar>- 5 / 4 :: real\<bar> \<ge> 1 / 10 ^ 12 \<and>
   (- 1 / 2 - (23 / 8) / (- 5 / 4) :: real) = 9 / 5 \<and> (1 :: real) \<le> 9 / 5 \<and>
   newton_step (fn cubic_solver) (dfn cubic_solver) (- 2) 1 (- 1 / 2)
     = ((- 2 + 1) / 2, ''Bisection'', ''Switched (Newton Overshot Bounds)'') \<and>
   iteration cubic_solver (1 / 10 ^ 6) \<lparr>var_a = - 2, var_b = 1, current_x = - 1 / 2\<rparr> 1
     = Inr (cubic_solver\<lparr>history :=
              [\<lparr>Iteration = 1, Method = ''Bisection'', Current_Root_Estimate = (- 2 + 1) / 2,
                Function_Value = 23 / 8, Error_Estimate = 3 / 2,
                Decision_Logic = ''Switched (Newton Overshot Bounds)''\<rparr>]\<rparr>,
            \<lparr>var_a = - 2, var_b = (- 2 + 1) / 2, current_x = (- 2 + 1) / 2\<rparr>, False)"
proof -
  let ?v = "\<lparr>var_a = - 2, var_b = 1, current_x = - 1 / 2\<rparr>"
  have h1: "fn cubic_solver (current_x ?v) = Inr (23 / 8)"
    by (simp add: cubic_solver_def power3_eq_cube)
  have h2: "dfn cubic_solver (current_x ?v) = Inr (- 5 / 4)"
    by (simp add: cubic_solver_def power2_eq_square)
  have h3: "\<bar>- 5 / 4 :: real\<bar> \<ge> 1 / 10 ^ 12" by simp
  have h4: "\<not> (var_a ?v < current_x ?v - (23 / 8) / (- 5 / 4) \<and>
                current_x ?v - (23 / 8) / (- 5 / 4) < var_b ?v)" by simp
  have h5: "iteration cubic_solver (1 / 10 ^ 6) ?v 1
     = Inr (cubic_solver\<lparr>history :=
              [\<lparr>Iteration = 1, Method = ''Bisection'', Current_Root_Estimate = - 1 / 2,
                Function_Value = 23 / 8, Error_Estimate = 3 / 2,
                Decision_Logic = ''Switched (Newton Overshot Bounds)''\<rparr>]\<rparr>,
            \<lparr>var_a = - 2, var_b = - 1 / 2, current_x = - 1 / 2\<rparr>, False)"
    by (simp add: iteration_def newton_step_def newton_candidate_def cubic_solver_def
        power3_eq_cube power2_eq_square Let_def)
  from overshoot_switch [OF h1 h2 h3 h4, of "1 / 10 ^ 6" 1] h1 h2 h5 show ?thesis by simp
qed

text \<open>
  C5. When both endpoint values exist and their product is not negative (a zero at an
  endpoint included), \<open>solve\<close> returns \<open>None\<close> with the bracket error text and raises
  nothing; the solver is left as it was, so no record is appended and no bracket is updated.
\<close>

theorem solve_bracket_failure:
  "valid s \<Longrightarrow> fn s a = Inr fa \<Longrightarrow> fn s b = Inr fb \<Longrightarrow> fa * fb \<ge> 0 \<Longrightarrow>
     solve s a b tol max_iter = (Inr (None, ErrorText bracket_error_text), s)"
  by (simp add: solve_def)

theorem solve_bracket_failure_witness:
  "valid no_root_solver \<and> fn no_root_solver (- 1) = Inr 2 \<and> fn no_root_solver 1 = Inr 2 \<and>
   (2::real) * 2 \<ge> 0 \<and>
   solve no_root_solver (- 1) 1 (1 / 10 ^ 6) 100
     = (Inr (None, ErrorText bracket_error_text), no_root_solver) \<and>
   history no_root_solver = []"
  using solve_bracket_failure [of no_root_solver "- 1" 2 1 2 "1 / 10 ^ 6" 100]
  by (simp add: no_root_solver_def)



text \<open>
  C8 (amended). A call that passes the bracket check behaves as on a solver with an empty
  history: result and final history do not depend on the records of earlier calls.
\<close>

theorem history_reset:
  assumes "valid s" and "fn s a = Inr fa" and "fn s b = Inr fb" and "fa * fb < 0"
  shows "solve s a b tol max_iter = solve (s\<lparr>history := []\<rparr>) a b tol max_iter"
  using assms by (simp add: solve_def solve_loop_def)

theorem history_reset_witness:
  "valid used_solver \<and> fn used_solver 1 = Inr (- 1) \<and> fn used_solver 2 = Inr 2 \<and>
   (- 1 :: real) * 2 < 0 \<and>
   history used_solver =
     [\<lparr>Iteration = 1, Method = ''Newton-Raphson'', Current_Root_Estimate = 3 / 2,
       Function_Value = 1 / 4, Error_Estimate = 3 / 2,
       Decision_Logic = ''Accepted (Step is Safe)''\<rparr>] \<and>
   history (snd (solve used_solver 1 2 (1 / 10 ^ 6) 1)) =
     [\<lparr>Iteration = 1, Method = ''Newton-Raphson'', Current_Root_Estimate = 17 / 12,
       Function_Value = 1 / 144, Error_Estimate = 5 / 12,
       Decision_Logic = ''Accepted (Step is Safe)''\<rparr>]"
proof -
  have h1: "valid used_solver" and h2: "fn used_solver 1 = Inr (- 1)"
    and h3: "fn used_solver 2 = Inr 2" and h4: "(- 1 :: real) * 2 < 0"
    by (simp_all add: used_solver_eq) (simp_all add: sqrt2_solver_def)
  have fresh: "history (snd (solve (used_solver\<lparr>history := []\<rparr>) 1 2 (1 / 10 ^ 6) 1)) =
     [\<lparr>Iteration = 1, Method = ''Newton-Raphson'', Current_Root_Estimate = 17 / 12,
       Function_Value = 1 / 144, Error_Estimate = 5 / 12,
       Decision_Logic = ''Accepted (Step is Safe)''\<rparr>]"
    by (simp add: used_solver_eq)
      (simp add: solve_def solve_loop_def iteration_def newton_step_def newton_candidate_def
        sqrt2_solver_def Let_def)
  have old: "history used_solver =
     [\<lparr>Iteration = 1, Method = ''Newton-Raphson'', Current_Root_Estimate = 3 / 2,
       Function_Value = 1 / 4, Error_Estimate = 3 / 2,
       Decision_Logic = ''Accepted (Step is Safe)''\<rparr>]"
    by (simp add: used_solver_eq)
  from history_reset [OF h1 h2 h3 h4, of "1 / 10 ^ 6" 1] fresh old h1 h2 h3 h4
  show ?thesis by simp
qed

text \<open>
  C8 as stated fails: a call that ends in bracket failure returns before the history is
  cleared, so the record of the earlier call is still there.
\<close>

theorem history_kept_counterexample:
  "valid used_solver \<and> fn used_solver 2 = Inr 2 \<and> fn used_solver 3 = Inr 7 \<and>
   solve used_solver 2 3 (1 / 10 ^ 6) 100 = (Inr (None, ErrorText bracket_error_text), used_solver) \<and>
   history used_solver =
     [\<lparr>Iteration = 1, Method = ''Newton-Raphson'', Current_Root_Estimate = 3 / 2,
       Function_Value = 1 / 4, Error_Estimate = 3 / 2,
       Decision_Logic = ''Accepted (Step is Safe)''\<rparr>]"
  by (simp add: used_solver_eq) (simp add: solve_def sqrt2_solver_def)




text \<open>
  C10. A solver whose function did not parse answers \<open>solve\<close> with \<open>None\<close> and an empty
  data frame. The answer is the same whatever the evaluators are (also ones that raise at
  every point), so neither is consulted; nothing is raised and the solver is unchanged.
\<close>

theorem solve_invalid:
  "\<not> valid s \<Longrightarrow>
     solve s a b tol max_iter = (Inr (None, DataFrame []), s) \<and>
     solve (s\<lparr>fn := g, dfn := h\<rparr>) a b tol max_iter
       = (Inr (None, DataFrame []), s\<lparr>fn := g, dfn := h\<rparr>)"
  by (simp add: solve_def)

theorem solve_invalid_witness:
  "\<not> valid unparsed_solver \<and>
   solve unparsed_solver 0 2 (1 / 10 ^ 6) 100 = (Inr (None, DataFrame []), unparsed_solver)"
  using solve_invalid [of unparsed_solver 0 2 "1 / 10 ^ 6" 100]
  by (simp add: unparsed_solver_def)

end
